theory Spec2Isabelle
  imports Complex_Main
begin

section \<open>photutils/background/core.py: scalar background and background-rms estimators\<close>

text \<open>
  The module defines one configuration class per estimator. Every class stores the
  sigma-clipping parameters given to \<^verbatim>\<open>BackgroundBase.__init__\<close>; its method
  \<^verbatim>\<open>calc_background\<close> (or \<^verbatim>\<open>calc_background_rms\<close>) optionally sigma-clips the data and
  then applies one statistic. The statistics and the clipping routine come from numpy and
  astropy: they are not part of the module and enter the model as a record of functions.
\<close>

subsection \<open>Scalars returned by the numeric primitives\<close>

text \<open>
  A result is a finite number, \<^verbatim>\<open>nan\<close>, or the constant \<^verbatim>\<open>numpy.ma.masked\<close>. Finite
  \<^verbatim>\<open>float64\<close> values are idealised as reals: rounding and overflow are outside the model.
  Arithmetic with \<^verbatim>\<open>masked\<close> gives \<^verbatim>\<open>masked\<close>, arithmetic with \<^verbatim>\<open>nan\<close> gives \<^verbatim>\<open>nan\<close>;
  neither raises.
\<close>

datatype scalar = Num real | NaN | Masked

fun sc_sub :: "scalar \<Rightarrow> scalar \<Rightarrow> scalar" where
  "sc_sub Masked y = Masked"
| "sc_sub x Masked = Masked"
| "sc_sub NaN y = NaN"
| "sc_sub x NaN = NaN"
| "sc_sub (Num a) (Num b) = Num (a - b)"

fun sc_mul :: "scalar \<Rightarrow> scalar \<Rightarrow> scalar" where
  "sc_mul Masked y = Masked"
| "sc_mul x Masked = Masked"
| "sc_mul NaN y = NaN"
| "sc_mul x NaN = NaN"
| "sc_mul (Num a) (Num b) = Num (a * b)"

text \<open>
  Dividing a \<^verbatim>\<open>float64\<close> by zero gives \<^verbatim>\<open>inf\<close> or \<^verbatim>\<open>nan\<close> with a warning, not an
  exception. The model has one value for results that are not finite, \<open>NaN\<close>. The only
  division of the module has an absolute value as its numerator, so its quotient by zero
  would be \<^verbatim>\<open>+inf\<close> or \<^verbatim>\<open>nan\<close>, and its only use is a test \<^verbatim>\<open>< 0.3\<close>, false for both.
\<close>

fun sc_div :: "scalar \<Rightarrow> scalar \<Rightarrow> scalar" where
  "sc_div Masked y = Masked"
| "sc_div x Masked = Masked"
| "sc_div NaN y = NaN"
| "sc_div x NaN = NaN"
| "sc_div (Num a) (Num b) = (if b = 0 then NaN else Num (a / b))"

fun sc_abs :: "scalar \<Rightarrow> scalar" where
  "sc_abs (Num a) = Num \<bar>a\<bar>"
| "sc_abs NaN = NaN"
| "sc_abs Masked = Masked"

text \<open>
  The truth value Python's \<^verbatim>\<open>if\<close> sees for \<^verbatim>\<open>x == y\<close> and \<^verbatim>\<open>x < y\<close>: a comparison with
  \<^verbatim>\<open>nan\<close> is false, and a comparison with \<^verbatim>\<open>masked\<close> is \<^verbatim>\<open>masked\<close>, which is falsy.
\<close>

fun sc_eq :: "scalar \<Rightarrow> scalar \<Rightarrow> bool" where
  "sc_eq (Num a) (Num b) = (a = b)"
| "sc_eq x y = False"

fun sc_less :: "scalar \<Rightarrow> scalar \<Rightarrow> bool" where
  "sc_less (Num a) (Num b) = (a < b)"
| "sc_less x y = False"

definition is_sentinel :: "scalar \<Rightarrow> bool" where
  "is_sentinel x = (x = Masked \<or> x = NaN)"

subsection \<open>Input data\<close>

text \<open>
  A (possibly masked) array, flattened: each element is its value, a finite number, and
  its mask bit (\<open>True\<close> = excluded). No primitive is called with an axis, so the shape
  plays no role. \<open>compressed\<close> lists the unmasked values; an array is degenerate when it
  has none, that is when every element is masked or the array is empty.
\<close>

type_synonym marray = "(real \<times> bool) list"

definition compressed :: "marray \<Rightarrow> real list" where
  "compressed data = map fst (filter (\<lambda>e. \<not> snd e) data)"

definition degenerate :: "marray \<Rightarrow> bool" where
  "degenerate data = (compressed data = [])"

subsection \<open>The external primitives\<close>

text \<open>
  \<^verbatim>\<open>astropy.stats.sigma_clip(data, sigma, sigma_lower, sigma_upper, iters)\<close>,
  \<^verbatim>\<open>np.ma.mean\<close>, \<^verbatim>\<open>np.ma.median\<close>, \<^verbatim>\<open>np.ma.std\<close>, \<^verbatim>\<open>astropy.stats.mad_std\<close>, and
  \<^verbatim>\<open>biweight_location(data, c, M)\<close>, \<^verbatim>\<open>biweight_midvariance(data, c, M)\<close>.
\<close>

record prims =
  sigma_clip :: "marray \<Rightarrow> real \<Rightarrow> real option \<Rightarrow> real option \<Rightarrow> int option \<Rightarrow> marray"
  np_ma_mean :: "marray \<Rightarrow> scalar"
  np_ma_median :: "marray \<Rightarrow> scalar"
  np_ma_std :: "marray \<Rightarrow> scalar"
  mad_std :: "marray \<Rightarrow> scalar"
  biweight_location :: "marray \<Rightarrow> real \<Rightarrow> real option \<Rightarrow> scalar"
  biweight_midvariance :: "marray \<Rightarrow> real \<Rightarrow> real option \<Rightarrow> scalar"

subsection \<open>Configuration objects and their constructors\<close>

text \<open>
  \<^verbatim>\<open>BackgroundBase\<close> holds five attributes; the two biweight classes add \<^verbatim>\<open>c\<close> and
  \<^verbatim>\<open>M\<close>. \<open>None\<close> is Python's \<^verbatim>\<open>None\<close>.
\<close>

record BackgroundBase =
  sigclip :: bool
  sigma :: real
  sigma_lower :: "real option"
  sigma_upper :: "real option"
  iters :: "int option"

record Biweight = BackgroundBase +
  c :: real
  M :: "real option"

text \<open>
  Keyword arguments: each is either absent (\<open>None\<close>, the default of the signature
  applies) or supplied (\<open>Some v\<close>, where \<open>v\<close> may itself be Python's \<^verbatim>\<open>None\<close>).
\<close>

record kwargs =
  kw_sigclip :: "bool option"
  kw_sigma :: "real option"
  kw_sigma_lower :: "real option option"
  kw_sigma_upper :: "real option option"
  kw_iters :: "int option option"

definition arg :: "'a \<Rightarrow> 'a option \<Rightarrow> 'a" where
  "arg dflt supplied = (case supplied of None \<Rightarrow> dflt | Some v \<Rightarrow> v)"

definition BackgroundBase_init :: "kwargs \<Rightarrow> BackgroundBase" where
  "BackgroundBase_init kw =
     \<lparr>sigclip = arg True (kw_sigclip kw),
      sigma = arg 3 (kw_sigma kw),
      sigma_lower = arg None (kw_sigma_lower kw),
      sigma_upper = arg None (kw_sigma_upper kw),
      iters = arg (Some 5) (kw_iters kw)\<rparr>"

definition Biweight_init :: "real \<Rightarrow> real option \<Rightarrow> kwargs \<Rightarrow> Biweight" where
  "Biweight_init c0 M0 kw = BackgroundBase.extend (BackgroundBase_init kw) \<lparr>c = c0, M = M0\<rparr>"

text \<open>The two families of estimator objects, one constructor per class of the module.\<close>

datatype background =
    MeanBackground BackgroundBase
  | MedianBackground BackgroundBase
  | MMMBackground BackgroundBase
  | SExtractorBackground BackgroundBase
  | BiweightLocationBackground Biweight

datatype background_rms =
    StdBackgroundRMS BackgroundBase
  | MADStdBackgroundRMS BackgroundBase
  | BiweightMidvarianceBackgroundRMS Biweight

definition MeanBackground_init :: "kwargs \<Rightarrow> background" where
  "MeanBackground_init kw = MeanBackground (BackgroundBase_init kw)"

definition MedianBackground_init :: "kwargs \<Rightarrow> background" where
  "MedianBackground_init kw = MedianBackground (BackgroundBase_init kw)"

definition MMMBackground_init :: "kwargs \<Rightarrow> background" where
  "MMMBackground_init kw = MMMBackground (BackgroundBase_init kw)"

definition SExtractorBackground_init :: "kwargs \<Rightarrow> background" where
  "SExtractorBackground_init kw = SExtractorBackground (BackgroundBase_init kw)"

text \<open>\<^verbatim>\<open>def __init__(self, c=6, M=None, **kwargs)\<close>\<close>

definition BiweightLocationBackground_init ::
  "real option \<Rightarrow> real option option \<Rightarrow> kwargs \<Rightarrow> background" where
  "BiweightLocationBackground_init kw_c kw_M kw =
     BiweightLocationBackground (Biweight_init (arg 6 kw_c) (arg None kw_M) kw)"

definition StdBackgroundRMS_init :: "kwargs \<Rightarrow> background_rms" where
  "StdBackgroundRMS_init kw = StdBackgroundRMS (BackgroundBase_init kw)"

definition MADStdBackgroundRMS_init :: "kwargs \<Rightarrow> background_rms" where
  "MADStdBackgroundRMS_init kw = MADStdBackgroundRMS (BackgroundBase_init kw)"

text \<open>\<^verbatim>\<open>def __init__(self, c=9.0, M=None, **kwargs)\<close>\<close>

definition BiweightMidvarianceBackgroundRMS_init ::
  "real option \<Rightarrow> real option option \<Rightarrow> kwargs \<Rightarrow> background_rms" where
  "BiweightMidvarianceBackgroundRMS_init kw_c kw_M kw =
     BiweightMidvarianceBackgroundRMS (Biweight_init (arg 9 kw_c) (arg None kw_M) kw)"

subsection \<open>The methods\<close>

text \<open>
  A method takes the object and returns its result together with the object as the call
  leaves it. \<^verbatim>\<open>data = self.sigma_clip(data)\<close> rebinds the local name \<^verbatim>\<open>data\<close>; no method
  assigns to an attribute of \<^verbatim>\<open>self\<close>.
\<close>

definition BackgroundBase_sigma_clip ::
  "prims \<Rightarrow> marray \<Rightarrow> 'a BackgroundBase_scheme \<Rightarrow> marray \<times> 'a BackgroundBase_scheme" where
  "BackgroundBase_sigma_clip P data self =
     (sigma_clip P data (sigma self) (sigma_lower self) (sigma_upper self) (iters self), self)"

definition MeanBackground_calc_background ::
  "prims \<Rightarrow> marray \<Rightarrow> BackgroundBase \<Rightarrow> scalar \<times> BackgroundBase" where
  "MeanBackground_calc_background P data self =
     (let (data, self) =
            (if sigclip self then BackgroundBase_sigma_clip P data self else (data, self))
      in (np_ma_mean P data, self))"

definition MedianBackground_calc_background ::
  "prims \<Rightarrow> marray \<Rightarrow> BackgroundBase \<Rightarrow> scalar \<times> BackgroundBase" where
  "MedianBackground_calc_background P data self =
     (let (data, self) =
            (if sigclip self then BackgroundBase_sigma_clip P data self else (data, self))
      in (np_ma_median P data, self))"

definition MMMBackground_calc_background ::
  "prims \<Rightarrow> marray \<Rightarrow> BackgroundBase \<Rightarrow> scalar \<times> BackgroundBase" where
  "MMMBackground_calc_background P data self =
     (let (data, self) =
            (if sigclip self then BackgroundBase_sigma_clip P data self else (data, self))
      in (sc_sub (sc_mul (Num 3) (np_ma_median P data)) (sc_mul (Num 2) (np_ma_mean P data)),
          self))"

definition SExtractorBackground_calc_background ::
  "prims \<Rightarrow> marray \<Rightarrow> BackgroundBase \<Rightarrow> scalar \<times> BackgroundBase" where
  "SExtractorBackground_calc_background P data self =
     (let (data, self) =
            (if sigclip self then BackgroundBase_sigma_clip P data self else (data, self));
          median' = np_ma_median P data;
          mean' = np_ma_mean P data;
          std' = np_ma_std P data
      in if sc_eq std' (Num 0) then (mean', self)
         else if sc_less (sc_div (sc_abs (sc_sub mean' median')) std') (Num (3 / 10))
         then (sc_sub (sc_mul (Num (5 / 2)) median') (sc_mul (Num (3 / 2)) mean'), self)
         else (median', self))"

definition BiweightLocationBackground_calc_background ::
  "prims \<Rightarrow> marray \<Rightarrow> Biweight \<Rightarrow> scalar \<times> Biweight" where
  "BiweightLocationBackground_calc_background P data self =
     (let (data, self) =
            (if sigclip self then BackgroundBase_sigma_clip P data self else (data, self))
      in (biweight_location P data (c self) (M self), self))"

definition StdBackgroundRMS_calc_background_rms ::
  "prims \<Rightarrow> marray \<Rightarrow> BackgroundBase \<Rightarrow> scalar \<times> BackgroundBase" where
  "StdBackgroundRMS_calc_background_rms P data self =
     (let (data, self) =
            (if sigclip self then BackgroundBase_sigma_clip P data self else (data, self))
      in (np_ma_std P data, self))"

definition MADStdBackgroundRMS_calc_background_rms ::
  "prims \<Rightarrow> marray \<Rightarrow> BackgroundBase \<Rightarrow> scalar \<times> BackgroundBase" where
  "MADStdBackgroundRMS_calc_background_rms P data self =
     (let (data, self) =
            (if sigclip self then BackgroundBase_sigma_clip P data self else (data, self))
      in (mad_std P data, self))"

definition BiweightMidvarianceBackgroundRMS_calc_background_rms ::
  "prims \<Rightarrow> marray \<Rightarrow> Biweight \<Rightarrow> scalar \<times> Biweight" where
  "BiweightMidvarianceBackgroundRMS_calc_background_rms P data self =
     (let (data, self) =
            (if sigclip self then BackgroundBase_sigma_clip P data self else (data, self))
      in (biweight_midvariance P data (c self) (M self), self))"

text \<open>
  The value of the local variable \<^verbatim>\<open>data\<close> after the first two lines of a method,
  \<^verbatim>\<open>if self.sigclip: data = self.sigma_clip(data)\<close>: the data the statistic is applied to.
\<close>

definition clipped_data :: "prims \<Rightarrow> marray \<Rightarrow> 'a BackgroundBase_scheme \<Rightarrow> marray" where
  "clipped_data P data self =
     (if sigclip self then fst (BackgroundBase_sigma_clip P data self) else data)"

text \<open>Method dispatch: \<^verbatim>\<open>obj.calc_background(data)\<close> and \<^verbatim>\<open>obj.calc_background_rms(data)\<close>.\<close>

fun calc_background :: "prims \<Rightarrow> marray \<Rightarrow> background \<Rightarrow> scalar \<times> background" where
  "calc_background P data (MeanBackground self) =
     map_prod id MeanBackground (MeanBackground_calc_background P data self)"
| "calc_background P data (MedianBackground self) =
     map_prod id MedianBackground (MedianBackground_calc_background P data self)"
| "calc_background P data (MMMBackground self) =
     map_prod id MMMBackground (MMMBackground_calc_background P data self)"
| "calc_background P data (SExtractorBackground self) =
     map_prod id SExtractorBackground (SExtractorBackground_calc_background P data self)"
| "calc_background P data (BiweightLocationBackground self) =
     map_prod id BiweightLocationBackground
       (BiweightLocationBackground_calc_background P data self)"

fun calc_background_rms ::
  "prims \<Rightarrow> marray \<Rightarrow> background_rms \<Rightarrow> scalar \<times> background_rms" where
  "calc_background_rms P data (StdBackgroundRMS self) =
     map_prod id StdBackgroundRMS (StdBackgroundRMS_calc_background_rms P data self)"
| "calc_background_rms P data (MADStdBackgroundRMS self) =
     map_prod id MADStdBackgroundRMS (MADStdBackgroundRMS_calc_background_rms P data self)"
| "calc_background_rms P data (BiweightMidvarianceBackgroundRMS self) =
     map_prod id BiweightMidvarianceBackgroundRMS
       (BiweightMidvarianceBackgroundRMS_calc_background_rms P data self)"

subsection \<open>The public names\<close>

text \<open>The list \<^verbatim>\<open>__all__\<close>, and for each class which of the two methods it defines.\<close>

definition dunder_all :: "string list" where
  "dunder_all =
     [''MeanBackground'', ''MedianBackground'', ''MMMBackground'',
      ''SExtractorBackground'', ''BiweightLocationBackground'',
      ''StdBackgroundRMS'', ''MADStdBackgroundRMS'',
      ''BiweightMidvarianceBackgroundRMS'']"

definition defines_calc_background :: "string \<Rightarrow> bool" where
  "defines_calc_background cls =
     (cls \<in> set [''BackgroundBase'', ''MeanBackground'', ''MedianBackground'',
                 ''MMMBackground'', ''SExtractorBackground'', ''BiweightLocationBackground''])"

definition defines_calc_background_rms :: "string \<Rightarrow> bool" where
  "defines_calc_background_rms cls =
     (cls \<in> set [''StdBackgroundRMS'', ''MADStdBackgroundRMS'',
                 ''BiweightMidvarianceBackgroundRMS''])"

subsection \<open>A reference instance of the primitives\<close>

text \<open>
  The statistics as the specification describes them, computed on the unmasked values of
  the array. They are used where a claim is about the value a primitive returns, and to
  run the methods on concrete data. An array without unmasked values has no statistic:
  \<open>None\<close>, which the primitives return as \<open>Masked\<close>.
\<close>

text \<open>Modelled from the spec: the arithmetic mean of the unmasked values.\<close>

definition mean_list :: "real list \<Rightarrow> real option" where
  "mean_list xs = (if xs = [] then None else Some (sum_list xs / real (length xs)))"

text \<open>
  Modelled from the spec: the median of the unmasked values, the middle one of the sorted
  values or the mean of the two middle ones.
\<close>

definition median_list :: "real list \<Rightarrow> real option" where
  "median_list xs =
     (let s = sort xs; n = length xs
      in if n = 0 then None
         else if odd n then Some (s ! (n div 2))
         else Some ((s ! (n div 2 - 1) + s ! (n div 2)) / 2))"

text \<open>Modelled from the spec: the population standard deviation of the unmasked values.\<close>

definition std_list :: "real list \<Rightarrow> real option" where
  "std_list xs =
     (case mean_list xs of
        None \<Rightarrow> None
      | Some mu \<Rightarrow> Some (sqrt (sum_list (map (\<lambda>x. (x - mu)\<^sup>2) xs) / real (length xs))))"

text \<open>
  Modelled from the spec: the median absolute deviation, the median of the absolute
  deviations of each value from the overall median.
\<close>

definition median_absolute_deviation :: "real list \<Rightarrow> real option" where
  "median_absolute_deviation xs =
     (case median_list xs of
        None \<Rightarrow> None
      | Some med \<Rightarrow> median_list (map (\<lambda>x. \<bar>x - med\<bar>) xs))"

text \<open>
  Modelled from the spec: the result of a statistical primitive, a scalar or the masked
  sentinel for input without unmasked values.
\<close>

definition of_option :: "real option \<Rightarrow> scalar" where
  "of_option r = (case r of None \<Rightarrow> Masked | Some v \<Rightarrow> Num v)"

text \<open>Modelled from the spec: \<^verbatim>\<open>np.ma.mean\<close>, which ignores masked elements.\<close>

definition ma_mean :: "marray \<Rightarrow> scalar" where
  "ma_mean data = of_option (mean_list (compressed data))"

text \<open>Modelled from the spec: \<^verbatim>\<open>np.ma.median\<close>, which ignores masked elements.\<close>

definition ma_median :: "marray \<Rightarrow> scalar" where
  "ma_median data = of_option (median_list (compressed data))"

text \<open>Modelled from the spec: \<^verbatim>\<open>np.ma.std\<close>, which ignores masked elements.\<close>

definition ma_std :: "marray \<Rightarrow> scalar" where
  "ma_std data = of_option (std_list (compressed data))"

text \<open>
  Modelled from the spec: \<^verbatim>\<open>astropy.stats.mad_std\<close>, the median absolute deviation of the
  unmasked values scaled by the constant 1.4826.
\<close>

definition ma_mad_std :: "marray \<Rightarrow> scalar" where
  "ma_mad_std data =
     of_option (map_option (\<lambda>v. 14826 / 10000 * v) (median_absolute_deviation (compressed data)))"

text \<open>
  Modelled from the spec: the weights of the biweight estimators. With centre \<open>cen\<close> and a
  non-zero scale \<open>c * MAD\<close>, a value \<open>x\<close> has the deviation \<open>d = x - cen\<close> and the scaled
  deviation \<open>u = d / (c * MAD)\<close>; the weight of \<open>x\<close> is zero unless \<open>\<bar>u\<bar> < 1\<close>. The result
  lists \<open>(d, u\<^sup>2)\<close> for the values of non-zero weight.
\<close>

definition biweight_terms :: "real \<Rightarrow> real \<Rightarrow> real list \<Rightarrow> (real \<times> real) list" where
  "biweight_terms scale cen xs =
     map (\<lambda>(d, u). (d, u\<^sup>2))
       (filter (\<lambda>(d, u). \<bar>u\<bar> < 1) (map (\<lambda>x. (x - cen, (x - cen) / scale)) xs))"

text \<open>
  Modelled from the spec: \<^verbatim>\<open>biweight_location\<close>, the standard biweight location
  \<open>cen + (\<Sum> d (1 - u\<^sup>2)\<^sup>2) / (\<Sum> (1 - u\<^sup>2)\<^sup>2)\<close> of the unmasked values, where the centre \<open>cen\<close>
  is the initial guess \<^verbatim>\<open>M\<close>, or the median when \<^verbatim>\<open>M\<close> is \<^verbatim>\<open>None\<close>. The primitive returns a
  scalar for every input with an unmasked value. Where the correction term has no value
  (\<open>c * MAD\<close> is zero, or the sum of the weights is zero) the specification does not say
  which scalar; the reference primitive stays at the centre.
\<close>

definition ma_biweight_location :: "marray \<Rightarrow> real \<Rightarrow> real option \<Rightarrow> scalar" where
  "ma_biweight_location data c0 M0 =
     (case (median_list (compressed data), median_absolute_deviation (compressed data)) of
        (Some med, Some mad) \<Rightarrow>
          let cen = (case M0 of None \<Rightarrow> med | Some guess \<Rightarrow> guess);
              ts = biweight_terms (c0 * mad) cen (compressed data);
              num = sum_list (map (\<lambda>(d, u2). d * (1 - u2)\<^sup>2) ts);
              den = sum_list (map (\<lambda>(d, u2). (1 - u2)\<^sup>2) ts)
          in if c0 * mad = 0 \<or> den = 0 then Num cen else Num (cen + num / den)
      | _ \<Rightarrow> Masked)"

text \<open>
  Modelled from the spec: \<^verbatim>\<open>biweight_midvariance\<close>, the standard biweight midvariance
  \<open>n (\<Sum> d\<^sup>2 (1 - u\<^sup>2)\<^sup>4) / (\<Sum> (1 - u\<^sup>2) (1 - 5 u\<^sup>2))\<^sup>2\<close> of the unmasked values, with \<open>n\<close> the
  number of values of non-zero weight. The primitive returns a scalar for every input
  with an unmasked value. Where the formula has no value (\<open>c * MAD\<close> is zero, or the sum in
  the denominator is zero) the specification does not say which scalar: it is the
  parameter \<open>z\<close>.
\<close>

definition ma_biweight_midvariance :: "real \<Rightarrow> marray \<Rightarrow> real \<Rightarrow> real option \<Rightarrow> scalar" where
  "ma_biweight_midvariance z data c0 M0 =
     (case (median_list (compressed data), median_absolute_deviation (compressed data)) of
        (Some med, Some mad) \<Rightarrow>
          let cen = (case M0 of None \<Rightarrow> med | Some guess \<Rightarrow> guess);
              ts = biweight_terms (c0 * mad) cen (compressed data);
              num = sum_list (map (\<lambda>(d, u2). d\<^sup>2 * (1 - u2) ^ 4) ts);
              den = sum_list (map (\<lambda>(d, u2). (1 - u2) * (1 - 5 * u2)) ts)
          in if c0 * mad = 0 \<or> den = 0 then Num z
             else Num (real (length ts) * num / den\<^sup>2)
      | _ \<Rightarrow> Masked)"

text \<open>
  Modelled from the spec: one pass of the sigma-clipping primitive. The centre is the
  median; the scale, which the specification leaves to the primitive, is the population
  standard deviation. Values outside \<open>[centre - lo * scale, centre + hi * scale]\<close> are
  masked; an array without unmasked values is returned as it is.
\<close>

definition perform_clip :: "real \<Rightarrow> real \<Rightarrow> marray \<Rightarrow> marray" where
  "perform_clip lo hi data =
     (case (median_list (compressed data), std_list (compressed data)) of
        (Some cen, Some scale) \<Rightarrow>
          map (\<lambda>(v, m). (v, m \<or> v < cen - lo * scale \<or> cen + hi * scale < v)) data
      | _ \<Rightarrow> data)"

text \<open>
  Modelled from the spec: the passes under an iteration cap. The pass runs as many times
  as the cap says.
\<close>

fun clip_times :: "nat \<Rightarrow> real \<Rightarrow> real \<Rightarrow> marray \<Rightarrow> marray" where
  "clip_times 0 lo hi data = data"
| "clip_times (Suc n) lo hi data = clip_times n lo hi (perform_clip lo hi data)"

text \<open>
  Modelled from the spec: the passes without a cap. The pass is repeated until one of
  them excludes no further element. Every pass that does not end the loop leaves fewer
  unmasked elements, so the loop ends.
\<close>

function clip_until_converged :: "real \<Rightarrow> real \<Rightarrow> marray \<Rightarrow> marray" where
  "clip_until_converged lo hi data =
     (let data' = perform_clip lo hi data
      in if length (compressed data') = length (compressed data) then data'
         else clip_until_converged lo hi data')"
  by pat_completeness auto
termination
proof (relation "measure (\<lambda>(lo, hi, data). length (compressed data))")
  show "wf (measure (\<lambda>(lo, hi, data). length (compressed data)))"
    by simp
next
  fix lo hi and data data' :: marray
  assume clipped: "data' = perform_clip lo hi data"
    and changed: "length (compressed data') \<noteq> length (compressed data)"
  have masks_more: "length (compressed (map (\<lambda>(v, m). (v, m \<or> p v)) xs))
        \<le> length (compressed xs)" for p and xs :: marray
    by (induction xs) (auto simp: compressed_def)
  have "length (compressed data') \<le> length (compressed data)"
    unfolding clipped
    by (auto simp: perform_clip_def masks_more split: option.splits)
  with changed show "((lo, hi, data'), (lo, hi, data))
      \<in> measure (\<lambda>(lo, hi, data). length (compressed data))"
    by simp
qed

declare clip_until_converged.simps [simp del]

text \<open>
  Modelled from the spec: the sigma-clipping primitive
  \<^verbatim>\<open>clip(data, sigma_lower, sigma_upper, max_iters)\<close>. \<open>sigma_lower\<close> and \<open>sigma_upper\<close>
  default to \<open>sigma\<close>. With an iteration cap the pass runs that many times (not at all for
  a cap below one); without a cap it runs to convergence.
\<close>

definition ref_sigma_clip ::
  "marray \<Rightarrow> real \<Rightarrow> real option \<Rightarrow> real option \<Rightarrow> int option \<Rightarrow> marray" where
  "ref_sigma_clip data s s_lower s_upper cap =
     (let lo = (case s_lower of None \<Rightarrow> s | Some v \<Rightarrow> v);
          hi = (case s_upper of None \<Rightarrow> s | Some v \<Rightarrow> v)
      in case cap of
           Some n \<Rightarrow> clip_times (nat n) lo hi data
         | None \<Rightarrow> clip_until_converged lo hi data)"

text \<open>
  The primitives of the specification, as one record. Where its formula has no value the
  biweight midvariance of this record is 0.
\<close>

definition ref_prims :: prims where
  "ref_prims =
     \<lparr>sigma_clip = ref_sigma_clip,
      np_ma_mean = ma_mean,
      np_ma_median = ma_median,
      np_ma_std = ma_std,
      mad_std = ma_mad_std,
      biweight_location = ma_biweight_location,
      biweight_midvariance = ma_biweight_midvariance 0\<rparr>"

subsection \<open>Sample arguments\<close>

text \<open>A constructor call without keyword arguments.\<close>

definition no_kwargs :: kwargs where
  "no_kwargs = \<lparr>kw_sigclip = None, kw_sigma = None, kw_sigma_lower = None,
                 kw_sigma_upper = None, kw_iters = None\<rparr>"

text \<open>A plain array: no element is masked.\<close>

definition unmasked :: "real list \<Rightarrow> marray" where
  "unmasked xs = map (\<lambda>x. (x, False)) xs"

text \<open>All five keyword arguments supplied by the caller.\<close>

definition all_kwargs ::
  "bool \<Rightarrow> real \<Rightarrow> real option \<Rightarrow> real option \<Rightarrow> int option \<Rightarrow> kwargs" where
  "all_kwargs b s s_lower s_upper cap =
     \<lparr>kw_sigclip = Some b, kw_sigma = Some s, kw_sigma_lower = Some s_lower,
      kw_sigma_upper = Some s_upper, kw_iters = Some cap\<rparr>"

text \<open>Only \<^verbatim>\<open>sigclip=False\<close> supplied.\<close>

definition no_sigclip :: kwargs where
  "no_sigclip = no_kwargs\<lparr>kw_sigclip := Some False\<rparr>"

text \<open>Only \<^verbatim>\<open>sigma=2\<close> supplied, and \<^verbatim>\<open>sigma=2\<close> together with \<^verbatim>\<open>sigclip=False\<close>.\<close>

definition sigma_two :: kwargs where
  "sigma_two = no_kwargs\<lparr>kw_sigma := Some 2\<rparr>"

definition sigma_two_no_sigclip :: kwargs where
  "sigma_two_no_sigclip = no_kwargs\<lparr>kw_sigclip := Some False, kw_sigma := Some 2\<rparr>"

subsection \<open>Attribute access and the contract of the primitives\<close>

text \<open>The attribute \<^verbatim>\<open>sigclip\<close> of an estimator object.\<close>

fun background_sigclip :: "background \<Rightarrow> bool" where
  "background_sigclip (MeanBackground self) = sigclip self"
| "background_sigclip (MedianBackground self) = sigclip self"
| "background_sigclip (MMMBackground self) = sigclip self"
| "background_sigclip (SExtractorBackground self) = sigclip self"
| "background_sigclip (BiweightLocationBackground self) = sigclip self"

fun background_rms_sigclip :: "background_rms \<Rightarrow> bool" where
  "background_rms_sigclip (StdBackgroundRMS self) = sigclip self"
| "background_rms_sigclip (MADStdBackgroundRMS self) = sigclip self"
| "background_rms_sigclip (BiweightMidvarianceBackgroundRMS self) = sigclip self"

text \<open>
  What the specification asks of the primitives on degenerate input (every element
  masked, or no element at all): each statistic returns \<^verbatim>\<open>masked\<close> or \<^verbatim>\<open>nan\<close>, and clipping,
  which only ever masks more elements, returns degenerate data again.
\<close>

definition sentinel_for_degenerate :: "prims \<Rightarrow> bool" where
  "sentinel_for_degenerate P =
     (\<forall>data. degenerate data \<longrightarrow>
        is_sentinel (np_ma_mean P data) \<and> is_sentinel (np_ma_median P data)
        \<and> is_sentinel (np_ma_std P data) \<and> is_sentinel (mad_std P data)
        \<and> (\<forall>c0 M0. is_sentinel (biweight_location P data c0 M0)
                   \<and> is_sentinel (biweight_midvariance P data c0 M0))
        \<and> (\<forall>s s_lower s_upper cap. degenerate (sigma_clip P data s s_lower s_upper cap)))"

section \<open>Properties of the methods\<close>

subsection \<open>What each method returns\<close>

lemma sigma_clip_self: "snd (BackgroundBase_sigma_clip P data self) = self"
  by (simp add: BackgroundBase_sigma_clip_def)

lemma clipped_data_off: "\<not> sigclip self \<Longrightarrow> clipped_data P data self = data"
  by (simp add: clipped_data_def)

lemma Mean_result:
  "fst (MeanBackground_calc_background P data self) =
     np_ma_mean P (clipped_data P data self)"
  by (simp add: MeanBackground_calc_background_def split_def Let_def clipped_data_def)

lemma Median_result:
  "fst (MedianBackground_calc_background P data self) =
     np_ma_median P (clipped_data P data self)"
  by (simp add: MedianBackground_calc_background_def split_def Let_def clipped_data_def)

lemma MMM_result:
  "fst (MMMBackground_calc_background P data self) =
     sc_sub (sc_mul (Num 3) (np_ma_median P (clipped_data P data self)))
            (sc_mul (Num 2) (np_ma_mean P (clipped_data P data self)))"
  by (simp add: MMMBackground_calc_background_def split_def Let_def clipped_data_def)

lemma SExtractor_result:
  "fst (SExtractorBackground_calc_background P data self) =
     (let d = clipped_data P data self
      in if sc_eq (np_ma_std P d) (Num 0) then np_ma_mean P d
         else if sc_less (sc_div (sc_abs (sc_sub (np_ma_mean P d) (np_ma_median P d)))
                                 (np_ma_std P d)) (Num (3 / 10))
         then sc_sub (sc_mul (Num (5 / 2)) (np_ma_median P d))
                     (sc_mul (Num (3 / 2)) (np_ma_mean P d))
         else np_ma_median P d)"
  by (simp add: SExtractorBackground_calc_background_def split_def Let_def clipped_data_def)

lemma BiweightLocation_result:
  "fst (BiweightLocationBackground_calc_background P data self) =
     biweight_location P (clipped_data P data self) (c self) (M self)"
  by (simp add: BiweightLocationBackground_calc_background_def split_def Let_def
      clipped_data_def sigma_clip_self)

lemma Std_result:
  "fst (StdBackgroundRMS_calc_background_rms P data self) =
     np_ma_std P (clipped_data P data self)"
  by (simp add: StdBackgroundRMS_calc_background_rms_def split_def Let_def clipped_data_def)

lemma MADStd_result:
  "fst (MADStdBackgroundRMS_calc_background_rms P data self) =
     mad_std P (clipped_data P data self)"
  by (simp add: MADStdBackgroundRMS_calc_background_rms_def split_def Let_def clipped_data_def)

lemma BiweightMidvariance_result:
  "fst (BiweightMidvarianceBackgroundRMS_calc_background_rms P data self) =
     biweight_midvariance P (clipped_data P data self) (c self) (M self)"
  by (simp add: BiweightMidvarianceBackgroundRMS_calc_background_rms_def split_def Let_def
      clipped_data_def sigma_clip_self)

lemmas results =
  Mean_result Median_result MMM_result SExtractor_result BiweightLocation_result
  Std_result MADStd_result BiweightMidvariance_result

lemmas calc_defs =
  MeanBackground_calc_background_def MedianBackground_calc_background_def
  MMMBackground_calc_background_def SExtractorBackground_calc_background_def
  BiweightLocationBackground_calc_background_def
  StdBackgroundRMS_calc_background_rms_def MADStdBackgroundRMS_calc_background_rms_def
  BiweightMidvarianceBackgroundRMS_calc_background_rms_def

lemma calc_background_self: "snd (calc_background P data e) = e"
  by (cases e) (simp_all add: calc_defs split_def Let_def sigma_clip_self)

lemma calc_background_rms_self: "snd (calc_background_rms P data r) = r"
  by (cases r) (simp_all add: calc_defs split_def Let_def sigma_clip_self)

subsection \<open>Running the methods on the reference primitives\<close>

lemma compressed_unmasked: "compressed (unmasked xs) = xs"
  by (induction xs) (simp_all add: compressed_def unmasked_def)

lemma degenerate_iff: "degenerate data \<longleftrightarrow> (\<forall>e \<in> set data. snd e)"
  by (auto simp: degenerate_def compressed_def filter_empty_conv)


lemma ref_stats:
  "np_ma_mean ref_prims (unmasked xs) = of_option (mean_list xs)"
  "np_ma_median ref_prims (unmasked xs) = of_option (median_list xs)"
  "np_ma_std ref_prims (unmasked xs) = of_option (std_list xs)"
  by (simp_all add: ref_prims_def ma_mean_def ma_median_def ma_std_def compressed_unmasked)

lemma std_list_eval:
  assumes "xs \<noteq> []" and "0 \<le> r"
    and "sum_list (map (\<lambda>x. (x - sum_list xs / real (length xs))\<^sup>2) xs) / real (length xs) = r\<^sup>2"
  shows "std_list xs = Some r"
  using assms by (simp add: std_list_def mean_list_def real_sqrt_unique)

lemma stats_constant:
  "mean_list [5, 5, 5] = Some 5 \<and> median_list [5, 5, 5] = Some 5 \<and> std_list [5, 5, 5] = Some 0"
  by (simp add: mean_list_def median_list_def std_list_def)

lemma stats_mode:
  "mean_list [0, 1, 4, 9] = Some (7 / 2) \<and> median_list [0, 1, 4, 9] = Some (5 / 2)
   \<and> std_list [0, 1, 4, 9] = Some (7 / 2)"
proof -
  have "std_list [0, 1, 4, 9] = Some (7 / 2)"
    by (rule std_list_eval) (simp_all add: power2_eq_square)
  then show ?thesis by (simp add: mean_list_def median_list_def)
qed

lemma stats_boundary:
  "mean_list [0, 2, 6, 9, 28] = Some 9 \<and> median_list [0, 2, 6, 9, 28] = Some 6
   \<and> std_list [0, 2, 6, 9, 28] = Some 10"
proof -
  have "std_list [0, 2, 6, 9, 28] = Some 10"
    by (rule std_list_eval) (simp_all add: power2_eq_square)
  then show ?thesis by (simp add: mean_list_def median_list_def)
qed

lemma stats_skewed:
  "mean_list [0, 1, 1, 4] = Some (3 / 2) \<and> median_list [0, 1, 1, 4] = Some 1
   \<and> std_list [0, 1, 1, 4] = Some (3 / 2)"
proof -
  have "std_list [0, 1, 1, 4] = Some (3 / 2)"
    by (rule std_list_eval) (simp_all add: power2_eq_square)
  then show ?thesis by (simp add: mean_list_def median_list_def)
qed

lemma stats_outlier: "mean_list [1, 2, 9] = Some 4 \<and> median_list [1, 2, 9] = Some 2"
  by (simp add: mean_list_def median_list_def)

lemma mad_boundary: "median_absolute_deviation [0, 2, 6, 9, 28] = Some 4"
  by (simp add: median_absolute_deviation_def median_list_def)


lemma clip_times_fixpoint:
  "perform_clip lo hi data = data \<Longrightarrow> clip_times n lo hi data = data"
  by (induction n) simp_all

lemma perform_clip_unmasked:
  assumes "median_list xs = Some cen" and "std_list xs = Some scale"
    and "\<forall>x \<in> set xs. cen - lo * scale \<le> x \<and> x \<le> cen + hi * scale"
  shows "perform_clip lo hi (unmasked xs) = unmasked xs"
proof -
  have "map (\<lambda>(v, m). (v, m \<or> v < cen - lo * scale \<or> cen + hi * scale < v)) (unmasked xs)
        = unmasked xs"
    using assms(3) by (induction xs) (auto simp: unmasked_def)
  then show ?thesis
    using assms(1,2) by (simp add: perform_clip_def compressed_unmasked)
qed

lemma clip_constant: "perform_clip 3 3 (unmasked [5, 5, 5]) = unmasked [5, 5, 5]"
  using stats_constant
  by (intro perform_clip_unmasked [where cen = 5 and scale = 0]) simp_all

lemma clip_mode: "perform_clip 3 3 (unmasked [0, 1, 4, 9]) = unmasked [0, 1, 4, 9]"
  using stats_mode
  by (intro perform_clip_unmasked [where cen = "5 / 2" and scale = "7 / 2"]) simp_all

lemma clip_boundary: "perform_clip 3 3 (unmasked [0, 2, 6, 9, 28]) = unmasked [0, 2, 6, 9, 28]"
  using stats_boundary
  by (intro perform_clip_unmasked [where cen = 6 and scale = 10]) simp_all

lemma clip_skewed: "perform_clip 3 3 (unmasked [0, 1, 1, 4]) = unmasked [0, 1, 1, 4]"
  using stats_skewed
  by (intro perform_clip_unmasked [where cen = 1 and scale = "3 / 2"]) simp_all

lemma default_config:
  "BackgroundBase_init no_kwargs =
     \<lparr>sigclip = True, sigma = 3, sigma_lower = None, sigma_upper = None, iters = Some 5\<rparr>"
  by (simp add: BackgroundBase_init_def no_kwargs_def arg_def)

lemma no_sigclip_config:
  "BackgroundBase_init no_sigclip =
     \<lparr>sigclip = False, sigma = 3, sigma_lower = None, sigma_upper = None, iters = Some 5\<rparr>"
  by (simp add: BackgroundBase_init_def no_sigclip_def no_kwargs_def arg_def)

lemma sigma_two_config:
  "BackgroundBase_init sigma_two =
     \<lparr>sigclip = True, sigma = 2, sigma_lower = None, sigma_upper = None, iters = Some 5\<rparr>"
  by (simp add: BackgroundBase_init_def sigma_two_def no_kwargs_def arg_def)

lemma sigma_two_no_sigclip_config:
  "BackgroundBase_init sigma_two_no_sigclip =
     \<lparr>sigclip = False, sigma = 2, sigma_lower = None, sigma_upper = None, iters = Some 5\<rparr>"
  by (simp add: BackgroundBase_init_def sigma_two_no_sigclip_def no_kwargs_def arg_def)

lemma default_clipped_data:
  assumes "sigclip self" and "sigma self = 3" and "sigma_lower self = None"
    and "sigma_upper self = None" and "iters self = Some 5"
    and "perform_clip 3 3 data = data"
  shows "clipped_data ref_prims data self = data"
  using assms
  by (simp add: clipped_data_def BackgroundBase_sigma_clip_def ref_prims_def
      ref_sigma_clip_def clip_times_fixpoint)

lemma default_clipped_data_base:
  "perform_clip 3 3 data = data \<Longrightarrow>
     clipped_data ref_prims data (BackgroundBase_init no_kwargs) = data"
  by (rule default_clipped_data) (simp_all add: default_config)


text \<open>
  An outlier that the clipping removes: with \<^verbatim>\<open>sigma=2\<close> the first pass over
  \<open>[0, 0, 6, 6, 25]\<close> (median 6, standard deviation 9.2) masks 25, and the second pass over
  \<open>[0, 0, 6, 6]\<close> (median 3, standard deviation 3) masks nothing.
\<close>

lemma stats_with_outlier:
  "mean_list [0, 0, 6, 6, 25] = Some (37 / 5) \<and> median_list [0, 0, 6, 6, 25] = Some 6
   \<and> std_list [0, 0, 6, 6, 25] = Some (46 / 5)"
proof -
  have "std_list [0, 0, 6, 6, 25] = Some (46 / 5)"
    by (rule std_list_eval) (simp_all add: power2_eq_square)
  then show ?thesis by (simp add: mean_list_def median_list_def)
qed

lemma stats_without_outlier:
  "mean_list [0, 0, 6, 6] = Some 3 \<and> median_list [0, 0, 6, 6] = Some 3
   \<and> std_list [0, 0, 6, 6] = Some 3"
proof -
  have "std_list [0, 0, 6, 6] = Some 3"
    by (rule std_list_eval) (simp_all add: power2_eq_square)
  then show ?thesis by (simp add: mean_list_def median_list_def)
qed

lemma clip_outlier:
  "clip_times 5 2 2 (unmasked [0, 0, 6, 6, 25])
     = [(0, False), (0, False), (6, False), (6, False), (25, True)]"
proof -
  let ?clipped = "[(0, False), (0, False), (6, False), (6, False), (25, True)] :: marray"
  have first: "perform_clip 2 2 (unmasked [0, 0, 6, 6, 25]) = ?clipped"
    using stats_with_outlier
    by (simp add: perform_clip_def compressed_unmasked) (simp add: unmasked_def)
  have "compressed ?clipped = [0, 0, 6, 6]"
    by (simp add: compressed_def)
  then have "perform_clip 2 2 ?clipped = ?clipped"
    using stats_without_outlier by (simp add: perform_clip_def)
  then have "clip_times 4 2 2 ?clipped = ?clipped"
    by (rule clip_times_fixpoint)
  with first show ?thesis
    by (simp add: eval_nat_numeral)
qed

lemma clipped_data_outlier:
  "clipped_data ref_prims (unmasked [0, 0, 6, 6, 25]) (BackgroundBase_init sigma_two)
     = [(0, False), (0, False), (6, False), (6, False), (25, True)]"
  by (simp add: clipped_data_def BackgroundBase_sigma_clip_def sigma_two_config ref_prims_def
      ref_sigma_clip_def clip_outlier)

lemma ref_stats_outlier_masked:
  "np_ma_mean ref_prims [(0, False), (0, False), (6, False), (6, False), (25, True)] = Num 3"
  "np_ma_median ref_prims [(0, False), (0, False), (6, False), (6, False), (25, True)] = Num 3"
  "np_ma_std ref_prims [(0, False), (0, False), (6, False), (6, False), (25, True)] = Num 3"
  using stats_without_outlier
  by (simp_all add: ref_prims_def ma_mean_def ma_median_def ma_std_def compressed_def
      of_option_def)


subsection \<open>The SExtractor estimator\<close>

text \<open>
  C1: after the optional sigma clipping, \<^verbatim>\<open>SExtractorBackground.calc_background\<close> returns
  the mean when the standard deviation of the data is 0. Otherwise it returns
  \<open>2.5 median - 1.5 mean\<close> if \<open>\<bar>mean - median\<bar> / std\<close> is strictly below 0.3, and the median
  if not (so also at exactly 0.3). The first two parts hold for whatever the primitives
  return; the third reads the second for numbers.
\<close>

theorem sextractor_three_way:
  assumes "d = clipped_data P data self"
  shows "(np_ma_std P d = Num 0 \<longrightarrow>
            fst (SExtractorBackground_calc_background P data self) = np_ma_mean P d)
       \<and> (np_ma_std P d \<noteq> Num 0 \<longrightarrow>
            fst (SExtractorBackground_calc_background P data self) =
              (if sc_less (sc_div (sc_abs (sc_sub (np_ma_mean P d) (np_ma_median P d)))
                                  (np_ma_std P d)) (Num (3 / 10))
               then sc_sub (sc_mul (Num (5 / 2)) (np_ma_median P d))
                           (sc_mul (Num (3 / 2)) (np_ma_mean P d))
               else np_ma_median P d))
       \<and> (np_ma_mean P d = Num a \<and> np_ma_median P d = Num m \<and> np_ma_std P d = Num s
            \<and> s \<noteq> 0 \<longrightarrow>
            fst (SExtractorBackground_calc_background P data self) =
              (if \<bar>a - m\<bar> / s < 3 / 10 then Num (5 / 2 * m - 3 / 2 * a) else Num m))"
proof -
  have eq0: "sc_eq x (Num 0) = (x = Num 0)" for x
    by (cases x) simp_all
  show ?thesis
    unfolding assms by (simp add: SExtractor_result Let_def eq0)
qed

text \<open>
  With the default configuration and the reference primitives: constant data gives the
  mean; \<open>[0, 1, 4, 9]\<close> has ratio 2/7 and gives \<open>2.5 * 2.5 - 1.5 * 3.5 = 1\<close>;
  \<open>[0, 2, 6, 9, 28]\<close> has mean 9, median 6 and standard deviation 10, a ratio of exactly
  0.3, and gives the median; \<open>[0, 1, 1, 4]\<close> has ratio 1/3 and gives the median. With
  \<^verbatim>\<open>sigma=2\<close> the clipping removes 25 from \<open>[0, 0, 6, 6, 25]\<close> and the result is that of
  \<open>[0, 0, 6, 6]\<close>, \<open>2.5 * 3 - 1.5 * 3 = 3\<close>.
\<close>

theorem sextractor_three_way_witness:
  "fst (SExtractorBackground_calc_background ref_prims (unmasked [5, 5, 5])
          (BackgroundBase_init no_kwargs)) = Num 5
   \<and> fst (SExtractorBackground_calc_background ref_prims (unmasked [0, 1, 4, 9])
          (BackgroundBase_init no_kwargs)) = Num 1
   \<and> fst (SExtractorBackground_calc_background ref_prims (unmasked [0, 2, 6, 9, 28])
          (BackgroundBase_init no_kwargs)) = Num 6
   \<and> fst (SExtractorBackground_calc_background ref_prims (unmasked [0, 1, 1, 4])
          (BackgroundBase_init no_kwargs)) = Num 1
   \<and> fst (SExtractorBackground_calc_background ref_prims (unmasked [0, 0, 6, 6, 25])
          (BackgroundBase_init sigma_two)) = Num 3"
proof -
  let ?cfg = "BackgroundBase_init no_kwargs"
  have "fst (SExtractorBackground_calc_background ref_prims (unmasked [5, 5, 5]) ?cfg) = Num 5"
    using sextractor_three_way
      [of "unmasked [5, 5, 5]" ref_prims "unmasked [5, 5, 5]" ?cfg 5 5 0]
    by (simp add: default_clipped_data_base clip_constant ref_stats stats_constant
        of_option_def)
  moreover
  have "fst (SExtractorBackground_calc_background ref_prims (unmasked [0, 1, 4, 9]) ?cfg) = Num 1"
    using sextractor_three_way
      [of "unmasked [0, 1, 4, 9]" ref_prims "unmasked [0, 1, 4, 9]" ?cfg "7 / 2" "5 / 2" "7 / 2"]
    by (simp add: default_clipped_data_base clip_mode ref_stats stats_mode of_option_def)
  moreover
  have "fst (SExtractorBackground_calc_background ref_prims (unmasked [0, 2, 6, 9, 28]) ?cfg)
        = Num 6"
    using sextractor_three_way
      [of "unmasked [0, 2, 6, 9, 28]" ref_prims "unmasked [0, 2, 6, 9, 28]" ?cfg 9 6 10]
    by (simp add: default_clipped_data_base clip_boundary ref_stats stats_boundary
        of_option_def)
  moreover
  have "fst (SExtractorBackground_calc_background ref_prims (unmasked [0, 1, 1, 4]) ?cfg) = Num 1"
    using sextractor_three_way
      [of "unmasked [0, 1, 1, 4]" ref_prims "unmasked [0, 1, 1, 4]" ?cfg "3 / 2" 1 "3 / 2"]
    by (simp add: default_clipped_data_base clip_skewed ref_stats stats_skewed of_option_def)
  moreover
  have "fst (SExtractorBackground_calc_background ref_prims (unmasked [0, 0, 6, 6, 25])
          (BackgroundBase_init sigma_two)) = Num 3"
    using sextractor_three_way
      [of "[(0, False), (0, False), (6, False), (6, False), (25, True)]" ref_prims
          "unmasked [0, 0, 6, 6, 25]" "BackgroundBase_init sigma_two" 3 3 3]
    by (simp add: clipped_data_outlier ref_stats_outlier_masked)
  ultimately show ?thesis by blast
qed

subsection \<open>The MMM estimator without clipping\<close>

text \<open>
  C2: with \<^verbatim>\<open>sigclip = False\<close>, on data whose median and mean are numbers (finite,
  non-degenerate data), \<^verbatim>\<open>MMMBackground.calc_background\<close> returns exactly
  \<open>3 median(data) - 2 mean(data)\<close>.
\<close>

theorem mmm_unclipped:
  assumes "\<not> sigclip self"
    and "np_ma_median P data = Num m"
    and "np_ma_mean P data = Num a"
  shows "fst (MMMBackground_calc_background P data self) = Num (3 * m - 2 * a)"
  using assms by (simp add: MMM_result clipped_data_off)

text \<open>\<open>[1, 2, 9]\<close> has median 2 and mean 4: the result is \<open>3 * 2 - 2 * 4 = -2\<close>.\<close>

theorem mmm_unclipped_witness:
  "fst (MMMBackground_calc_background ref_prims (unmasked [1, 2, 9])
          (BackgroundBase_init no_sigclip)) = Num (- 2)"
  using mmm_unclipped [of "BackgroundBase_init no_sigclip" ref_prims "unmasked [1, 2, 9]" 2 4]
  by (simp add: no_sigclip_config ref_stats stats_outlier of_option_def)

subsection \<open>Clipping switched off\<close>

text \<open>
  C3: when the object has \<^verbatim>\<open>sigclip = False\<close> the sigma-clipping step is not applied. The
  call gives the same result and object whatever clipping routine \<open>f\<close> stands in the place
  of \<^verbatim>\<open>sigma_clip\<close>, and the result is the estimator's statistic of the raw input, for each
  of the eight classes.
\<close>

theorem sigclip_false_skips_clipping:
  assumes "\<not> background_sigclip e" and "\<not> background_rms_sigclip r"
  shows "calc_background (P\<lparr>sigma_clip := f\<rparr>) data e = calc_background P data e
       \<and> calc_background_rms (P\<lparr>sigma_clip := f\<rparr>) data r = calc_background_rms P data r
       \<and> fst (calc_background P data e) =
           (case e of
              MeanBackground self \<Rightarrow> np_ma_mean P data
            | MedianBackground self \<Rightarrow> np_ma_median P data
            | MMMBackground self \<Rightarrow>
                sc_sub (sc_mul (Num 3) (np_ma_median P data)) (sc_mul (Num 2) (np_ma_mean P data))
            | SExtractorBackground self \<Rightarrow>
                if sc_eq (np_ma_std P data) (Num 0) then np_ma_mean P data
                else if sc_less (sc_div (sc_abs (sc_sub (np_ma_mean P data) (np_ma_median P data)))
                                        (np_ma_std P data)) (Num (3 / 10))
                then sc_sub (sc_mul (Num (5 / 2)) (np_ma_median P data))
                            (sc_mul (Num (3 / 2)) (np_ma_mean P data))
                else np_ma_median P data
            | BiweightLocationBackground self \<Rightarrow> biweight_location P data (c self) (M self))
       \<and> fst (calc_background_rms P data r) =
           (case r of
              StdBackgroundRMS self \<Rightarrow> np_ma_std P data
            | MADStdBackgroundRMS self \<Rightarrow> mad_std P data
            | BiweightMidvarianceBackgroundRMS self \<Rightarrow>
                biweight_midvariance P data (c self) (M self))"
proof -
  have "calc_background (P\<lparr>sigma_clip := f\<rparr>) data e = calc_background P data e"
    using assms(1) by (cases e) (simp_all add: calc_defs clipped_data_off)
  moreover
  have "calc_background_rms (P\<lparr>sigma_clip := f\<rparr>) data r = calc_background_rms P data r"
    using assms(2) by (cases r) (simp_all add: calc_defs clipped_data_off)
  moreover
  have "fst (calc_background P data e) =
           (case e of
              MeanBackground self \<Rightarrow> np_ma_mean P data
            | MedianBackground self \<Rightarrow> np_ma_median P data
            | MMMBackground self \<Rightarrow>
                sc_sub (sc_mul (Num 3) (np_ma_median P data)) (sc_mul (Num 2) (np_ma_mean P data))
            | SExtractorBackground self \<Rightarrow>
                if sc_eq (np_ma_std P data) (Num 0) then np_ma_mean P data
                else if sc_less (sc_div (sc_abs (sc_sub (np_ma_mean P data) (np_ma_median P data)))
                                        (np_ma_std P data)) (Num (3 / 10))
                then sc_sub (sc_mul (Num (5 / 2)) (np_ma_median P data))
                            (sc_mul (Num (3 / 2)) (np_ma_mean P data))
                else np_ma_median P data
            | BiweightLocationBackground self \<Rightarrow> biweight_location P data (c self) (M self))"
    using assms(1) by (cases e) (simp_all add: results clipped_data_off Let_def)
  moreover
  have "fst (calc_background_rms P data r) =
           (case r of
              StdBackgroundRMS self \<Rightarrow> np_ma_std P data
            | MADStdBackgroundRMS self \<Rightarrow> mad_std P data
            | BiweightMidvarianceBackgroundRMS self \<Rightarrow>
                biweight_midvariance P data (c self) (M self))"
    using assms(2) by (cases r) (simp_all add: results clipped_data_off)
  ultimately show ?thesis by blast
qed

text \<open>
  Objects built with \<^verbatim>\<open>sigclip=False\<close>, and in the place of \<^verbatim>\<open>sigma_clip\<close> a routine that
  would return an empty array: the results are the statistics of the raw data. On
  \<open>[0, 0, 6, 6, 25]\<close> the SExtractor estimator with \<^verbatim>\<open>sigma=2\<close> gives 3.9 on the raw data,
  where clipping would remove 25 and give 3.
\<close>

theorem sigclip_false_skips_clipping_witness:
  "calc_background (ref_prims\<lparr>sigma_clip := \<lambda>d s sl su n. []\<rparr>) (unmasked [1, 2, 9])
       (MMMBackground_init no_sigclip)
     = calc_background ref_prims (unmasked [1, 2, 9]) (MMMBackground_init no_sigclip)
   \<and> fst (calc_background ref_prims (unmasked [1, 2, 9]) (MMMBackground_init no_sigclip))
       = Num (- 2)
   \<and> fst (calc_background_rms ref_prims (unmasked [0, 2, 6, 9, 28])
            (StdBackgroundRMS_init no_sigclip))
       = Num 10
   \<and> fst (calc_background ref_prims (unmasked [0, 0, 6, 6, 25])
            (SExtractorBackground_init sigma_two_no_sigclip))
       = Num (39 / 10)"
  using sigclip_false_skips_clipping
    [where e = "MMMBackground_init no_sigclip" and r = "StdBackgroundRMS_init no_sigclip"
       and P = ref_prims and f = "\<lambda>d s sl su n. []" and data = "unmasked [1, 2, 9]"]
    sigclip_false_skips_clipping
    [where e = "MMMBackground_init no_sigclip" and r = "StdBackgroundRMS_init no_sigclip"
       and P = ref_prims and f = "\<lambda>d s sl su n. []" and data = "unmasked [0, 2, 6, 9, 28]"]
    sigclip_false_skips_clipping
    [where e = "SExtractorBackground_init sigma_two_no_sigclip"
       and r = "StdBackgroundRMS_init no_sigclip"
       and P = ref_prims and f = "\<lambda>d s sl su n. []" and data = "unmasked [0, 0, 6, 6, 25]"]
  by (simp add: MMMBackground_init_def StdBackgroundRMS_init_def SExtractorBackground_init_def
      no_sigclip_config sigma_two_no_sigclip_config ref_stats stats_outlier stats_boundary
      stats_with_outlier of_option_def)

subsection \<open>The public surface\<close>

text \<open>
  C4, as stated: \<^verbatim>\<open>__all__\<close> exposes exactly 7 background-level estimators and 3
  background-rms estimators. It does not: only 5 of the names are classes that define
  \<^verbatim>\<open>calc_background\<close>.
\<close>

theorem seven_level_estimators_counterexample:
  "\<not> (length (filter defines_calc_background dunder_all) = 7
      \<and> length (filter defines_calc_background_rms dunder_all) = 3)"
  by (simp add: dunder_all_def defines_calc_background_def)

text \<open>
  C4, amended: \<^verbatim>\<open>__all__\<close> exposes exactly 5 background-level estimators and 3
  background-rms estimators, 8 names in all, and no name belongs to both families.
\<close>

theorem public_estimator_counts:
  "length (filter defines_calc_background dunder_all) = 5
   \<and> length (filter defines_calc_background_rms dunder_all) = 3
   \<and> length dunder_all = 8
   \<and> filter (\<lambda>cls. defines_calc_background cls \<and> defines_calc_background_rms cls) dunder_all = []"
  by (simp add: dunder_all_def defines_calc_background_def defines_calc_background_rms_def)

subsection \<open>Degenerate input\<close>

lemma clipped_data_degenerate:
  assumes "sentinel_for_degenerate P" and "degenerate data"
  shows "degenerate (clipped_data P data self)"
  using assms
  by (simp add: sentinel_for_degenerate_def clipped_data_def BackgroundBase_sigma_clip_def)

lemma sentinel_stats:
  assumes "sentinel_for_degenerate P" and "degenerate x"
  shows "is_sentinel (np_ma_mean P x)" "is_sentinel (np_ma_median P x)"
    "is_sentinel (np_ma_std P x)" "is_sentinel (mad_std P x)"
    "is_sentinel (biweight_location P x c0 M0)" "is_sentinel (biweight_midvariance P x c0 M0)"
  using assms by (simp_all add: sentinel_for_degenerate_def)

lemma sentinel_linear:
  "is_sentinel x \<Longrightarrow> is_sentinel y \<Longrightarrow> is_sentinel (sc_sub (sc_mul (Num j) x) (sc_mul (Num k) y))"
  by (auto simp: is_sentinel_def)

lemma sentinel_not_equal: "is_sentinel x \<Longrightarrow> \<not> sc_eq x y"
  by (auto simp: is_sentinel_def)

lemma sentinel_ratio_not_less: "is_sentinel x \<Longrightarrow> \<not> sc_less (sc_div z x) y"
  by (cases z) (auto simp: is_sentinel_def)

lemma perform_clip_degenerate: "degenerate data \<Longrightarrow> perform_clip lo hi data = data"
  by (simp add: perform_clip_def degenerate_def median_list_def)

lemma clip_until_converged_fixpoint:
  "perform_clip lo hi data = data \<Longrightarrow> clip_until_converged lo hi data = data"
  by (subst clip_until_converged.simps) simp

lemma ref_sigma_clip_degenerate:
  "degenerate data \<Longrightarrow> ref_sigma_clip data s s_lower s_upper cap = data"
  by (simp add: ref_sigma_clip_def Let_def perform_clip_degenerate clip_times_fixpoint
      clip_until_converged_fixpoint split: option.splits)

lemma ref_prims_sentinel: "sentinel_for_degenerate ref_prims"
  by (simp add: sentinel_for_degenerate_def ref_prims_def ref_sigma_clip_degenerate)
     (simp add: degenerate_def is_sentinel_def ma_mean_def ma_median_def ma_std_def ma_mad_std_def
       ma_biweight_location_def ma_biweight_midvariance_def of_option_def mean_list_def
       median_list_def std_list_def median_absolute_deviation_def)

text \<open>
  C5: on degenerate input (every element masked, or no element) no estimator of the module
  raises: the methods have no \<^verbatim>\<open>raise\<close> statement and their arithmetic and comparisons on
  \<^verbatim>\<open>masked\<close> and \<^verbatim>\<open>nan\<close> give values, so each is a total function of its arguments here. When
  the primitives return \<^verbatim>\<open>masked\<close> or \<^verbatim>\<open>nan\<close> for degenerate data, so does every estimator,
  with or without clipping.
\<close>

theorem degenerate_input_gives_sentinel:
  assumes "sentinel_for_degenerate P" and "degenerate data"
  shows "is_sentinel (fst (calc_background P data e))
       \<and> is_sentinel (fst (calc_background_rms P data r))"
proof -
  note deg = clipped_data_degenerate [OF assms]
  note stat = sentinel_stats [OF assms(1) deg]
  have "is_sentinel (fst (calc_background P data e))"
    by (cases e)
       (simp_all add: results stat Let_def sentinel_linear sentinel_not_equal
          sentinel_ratio_not_less)
  moreover have "is_sentinel (fst (calc_background_rms P data r))"
    by (cases r) (simp_all add: results stat)
  ultimately show ?thesis by simp
qed

text \<open>
  The reference primitives meet the contract. An array with both elements masked and an
  empty array, given to default-constructed estimators (clipping on), come back as
  \<^verbatim>\<open>masked\<close>.
\<close>

theorem degenerate_input_gives_sentinel_witness:
  "is_sentinel (fst (calc_background ref_prims [(1, True), (2, True)]
                      (SExtractorBackground_init no_kwargs)))
   \<and> is_sentinel (fst (calc_background_rms ref_prims [(1, True), (2, True)]
                      (BiweightMidvarianceBackgroundRMS_init None None no_kwargs)))
   \<and> is_sentinel (fst (calc_background ref_prims [] (MMMBackground_init no_kwargs)))
   \<and> is_sentinel (fst (calc_background_rms ref_prims [] (StdBackgroundRMS_init no_kwargs)))"
proof -
  have d1: "degenerate [(1, True), (2, True)]" and d2: "degenerate []"
    by (simp_all add: degenerate_def compressed_def)
  show ?thesis
    using degenerate_input_gives_sentinel [OF ref_prims_sentinel d1,
        of "SExtractorBackground_init no_kwargs"
           "BiweightMidvarianceBackgroundRMS_init None None no_kwargs"]
      degenerate_input_gives_sentinel [OF ref_prims_sentinel d2,
        of "MMMBackground_init no_kwargs" "StdBackgroundRMS_init no_kwargs"]
    by simp
qed

subsection \<open>Repeated calls and the object's attributes\<close>

text \<open>
  C7: calling \<^verbatim>\<open>calc_background\<close>, \<^verbatim>\<open>calc_background_rms\<close> or the helper \<^verbatim>\<open>sigma_clip\<close> a
  second time, on the object as the first call left it and on the same data, gives the
  same result as the first call. The primitives are functions of their arguments, as the
  specification states of them.
\<close>

theorem second_call_same_result:
  "fst (calc_background P data (snd (calc_background P data e)))
     = fst (calc_background P data e)
   \<and> fst (calc_background_rms P data (snd (calc_background_rms P data r)))
     = fst (calc_background_rms P data r)
   \<and> fst (BackgroundBase_sigma_clip P data (snd (BackgroundBase_sigma_clip P data self)))
     = fst (BackgroundBase_sigma_clip P data self)"
  by (simp add: calc_background_self calc_background_rms_self sigma_clip_self)

text \<open>
  C8: a call of \<^verbatim>\<open>calc_background\<close>, \<^verbatim>\<open>calc_background_rms\<close> or the helper \<^verbatim>\<open>sigma_clip\<close>
  leaves the object as it was: \<^verbatim>\<open>sigclip\<close>, \<^verbatim>\<open>sigma\<close>, \<^verbatim>\<open>sigma_lower\<close>, \<^verbatim>\<open>sigma_upper\<close>,
  \<^verbatim>\<open>iters\<close> and, in the biweight classes, \<^verbatim>\<open>c\<close> and \<^verbatim>\<open>M\<close> keep their values.
\<close>

theorem calc_leaves_object_unchanged:
  "snd (calc_background P data e) = e
   \<and> snd (calc_background_rms P data r) = r
   \<and> snd (BackgroundBase_sigma_clip P data self) = self"
  by (simp add: calc_background_self calc_background_rms_self BackgroundBase_sigma_clip_def)

subsection \<open>Construction\<close>

text \<open>
  C10: every constructor accepts any argument values, negative ones included, and stores
  each supplied value unchanged in the attribute of the same name. The constructors are
  total: no value is checked and none is rejected.
\<close>

theorem init_stores_arguments:
  "BackgroundBase_init (all_kwargs b s s_lower s_upper cap)
     = \<lparr>sigclip = b, sigma = s, sigma_lower = s_lower, sigma_upper = s_upper, iters = cap\<rparr>
   \<and> MeanBackground_init (all_kwargs b s s_lower s_upper cap)
     = MeanBackground
         \<lparr>sigclip = b, sigma = s, sigma_lower = s_lower, sigma_upper = s_upper, iters = cap\<rparr>
   \<and> MedianBackground_init (all_kwargs b s s_lower s_upper cap)
     = MedianBackground
         \<lparr>sigclip = b, sigma = s, sigma_lower = s_lower, sigma_upper = s_upper, iters = cap\<rparr>
   \<and> MMMBackground_init (all_kwargs b s s_lower s_upper cap)
     = MMMBackground
         \<lparr>sigclip = b, sigma = s, sigma_lower = s_lower, sigma_upper = s_upper, iters = cap\<rparr>
   \<and> SExtractorBackground_init (all_kwargs b s s_lower s_upper cap)
     = SExtractorBackground
         \<lparr>sigclip = b, sigma = s, sigma_lower = s_lower, sigma_upper = s_upper, iters = cap\<rparr>
   \<and> BiweightLocationBackground_init (Some c0) (Some M0) (all_kwargs b s s_lower s_upper cap)
     = BiweightLocationBackground
         \<lparr>sigclip = b, sigma = s, sigma_lower = s_lower, sigma_upper = s_upper, iters = cap,
          c = c0, M = M0\<rparr>
   \<and> StdBackgroundRMS_init (all_kwargs b s s_lower s_upper cap)
     = StdBackgroundRMS
         \<lparr>sigclip = b, sigma = s, sigma_lower = s_lower, sigma_upper = s_upper, iters = cap\<rparr>
   \<and> MADStdBackgroundRMS_init (all_kwargs b s s_lower s_upper cap)
     = MADStdBackgroundRMS
         \<lparr>sigclip = b, sigma = s, sigma_lower = s_lower, sigma_upper = s_upper, iters = cap\<rparr>
   \<and> BiweightMidvarianceBackgroundRMS_init (Some c0) (Some M0)
         (all_kwargs b s s_lower s_upper cap)
     = BiweightMidvarianceBackgroundRMS
         \<lparr>sigclip = b, sigma = s, sigma_lower = s_lower, sigma_upper = s_upper, iters = cap,
          c = c0, M = M0\<rparr>"
  by (simp add: all_kwargs_def BackgroundBase_init_def Biweight_init_def arg_def
      BackgroundBase.extend_def MeanBackground_init_def MedianBackground_init_def
      MMMBackground_init_def SExtractorBackground_init_def BiweightLocationBackground_init_def
      StdBackgroundRMS_init_def MADStdBackgroundRMS_init_def
      BiweightMidvarianceBackgroundRMS_init_def)

text \<open>Negative \<^verbatim>\<open>sigma\<close>, \<^verbatim>\<open>sigma_lower\<close>, \<^verbatim>\<open>sigma_upper\<close>, \<^verbatim>\<open>iters\<close> and \<^verbatim>\<open>c\<close> are stored as given.\<close>

theorem init_stores_arguments_witness:
  "BackgroundBase_init (all_kwargs True (- 3) (Some (- 1)) (Some (- 2)) (Some (- 5)))
     = \<lparr>sigclip = True, sigma = - 3, sigma_lower = Some (- 1), sigma_upper = Some (- 2),
        iters = Some (- 5)\<rparr>
   \<and> BiweightMidvarianceBackgroundRMS_init (Some (- 9)) (Some None)
         (all_kwargs True (- 3) (Some (- 1)) (Some (- 2)) (Some (- 5)))
     = BiweightMidvarianceBackgroundRMS
         \<lparr>sigclip = True, sigma = - 3, sigma_lower = Some (- 1), sigma_upper = Some (- 2),
          iters = Some (- 5), c = - 9, M = None\<rparr>"
  using init_stores_arguments [of True "- 3" "Some (- 1)" "Some (- 2)" "Some (- 5)" "- 9" None]
  by simp

subsection \<open>The MAD-based rms\<close>

text \<open>
  C9: after the optional clipping, \<^verbatim>\<open>MADStdBackgroundRMS.calc_background_rms\<close> returns
  1.4826 times the median absolute deviation of the unmasked values (and \<^verbatim>\<open>masked\<close> when
  there are none), for the primitive \<^verbatim>\<open>mad_std\<close> of the specification. The equality is
  exact over the reals, hence within every tolerance.
\<close>

theorem madstd_is_scaled_mad:
  assumes "mad_std P = ma_mad_std" and "d = clipped_data P data self"
  shows "fst (MADStdBackgroundRMS_calc_background_rms P data self) =
           (case median_absolute_deviation (compressed d) of
              None \<Rightarrow> Masked
            | Some v \<Rightarrow> Num (14826 / 10000 * v))"
  using assms
  by (simp add: MADStd_result ma_mad_std_def of_option_def split: option.splits)

text \<open>
  \<open>[0, 2, 6, 9, 28]\<close> has median 6 and absolute deviations \<open>6, 4, 0, 3, 22\<close>, whose median is
  4: the result is \<open>1.4826 * 4\<close>. With \<^verbatim>\<open>sigma=2\<close> the clipping removes 25 from
  \<open>[0, 0, 6, 6, 25]\<close>; what is left has median 3 and absolute deviations \<open>3, 3, 3, 3\<close>: the
  result is \<open>1.4826 * 3\<close>.
\<close>

theorem madstd_is_scaled_mad_witness:
  "fst (MADStdBackgroundRMS_calc_background_rms ref_prims (unmasked [0, 2, 6, 9, 28])
          (BackgroundBase_init no_kwargs)) = Num (14826 / 10000 * 4)
   \<and> fst (MADStdBackgroundRMS_calc_background_rms ref_prims (unmasked [0, 0, 6, 6, 25])
          (BackgroundBase_init sigma_two)) = Num (14826 / 10000 * 3)"
proof -
  have prim: "mad_std ref_prims = ma_mad_std"
    by (simp add: ref_prims_def)
  have "median_absolute_deviation
          (compressed [(0, False), (0, False), (6, False), (6, False), (25, True)]) = Some 3"
    by (simp add: compressed_def median_absolute_deviation_def median_list_def)
  then show ?thesis
    using madstd_is_scaled_mad
        [where P = ref_prims and d = "unmasked [0, 2, 6, 9, 28]"
           and data = "unmasked [0, 2, 6, 9, 28]" and self = "BackgroundBase_init no_kwargs"]
      madstd_is_scaled_mad
        [where P = ref_prims
           and d = "[(0, False), (0, False), (6, False), (6, False), (25, True)]"
           and data = "unmasked [0, 0, 6, 6, 25]" and self = "BackgroundBase_init sigma_two"]
    by (simp add: prim default_clipped_data_base clip_boundary clipped_data_outlier
        compressed_unmasked mad_boundary)
qed

subsection \<open>Sign of the rms estimators\<close>

lemma median_list_Nil: "median_list [] = None"
  by (simp add: median_list_def)










end
